theory Spec2Isabelle
  imports Complex_Main
begin

section \<open>Values and outcomes\<close>

text \<open>
  The wrapper of \<^verbatim>\<open>cosmology/compat/classy/_standard.py\<close> computes with float64 values.
  They are idealised here as reals: rounding and overflow are not modelled. What the reals
  cannot hold is written out as an outcome of its own:
  \<^item> a \<^verbatim>\<open>raise\<close> of the source is \<open>Inl\<close> of the exception's name;
  \<^item> Python's division of a float by the float zero raises \<^verbatim>\<open>ZeroDivisionError\<close>;
  \<^item> numpy's division by zero, its square root of a negative number and its arcsine outside
    \<open>[-1, 1]\<close> raise nothing: they give \<^verbatim>\<open>inf\<close> or \<^verbatim>\<open>nan\<close> with a warning. No real
    is such a value, so the model ends these computations with the outcome \<open>NonFinite\<close>.
\<close>

datatype error = NotImplementedError | ZeroDivisionError | ValueError | KeyError | NonFinite

type_synonym 'a result = "error + 'a"

definition and_then :: "'a result \<Rightarrow> ('a \<Rightarrow> 'b result) \<Rightarrow> 'b result" where
  "and_then r f = (case r of Inl e \<Rightarrow> Inl e | Inr v \<Rightarrow> f v)"

text \<open>
  A redshift input is a single number or a sequence of numbers; a result has the same two
  shapes (a 0-d array or a 1-d array). Arrays of higher rank are not modelled.
\<close>

datatype 'a nd = Scalar 'a | Array "'a list"

type_synonym NDFloating = "real nd"
type_synonym InputT = "real nd"

fun nd_map :: "('a \<Rightarrow> 'b) \<Rightarrow> 'a nd \<Rightarrow> 'b nd" where
  "nd_map f (Scalar x) = Scalar (f x)"
| "nd_map f (Array xs) = Array (map f xs)"

fun nd_all :: "('a \<Rightarrow> bool) \<Rightarrow> 'a nd \<Rightarrow> bool" where
  "nd_all P (Scalar x) = P x"
| "nd_all P (Array xs) = list_all P xs"

text \<open>
  A binary numpy operation pairs its operands by broadcasting: a scalar goes with every
  element, two sequences of one length go element by element, a sequence of length one is
  stretched, and any other two lengths raise \<^verbatim>\<open>ValueError\<close>.
\<close>

fun broadcast :: "('a \<Rightarrow> 'b \<Rightarrow> 'c) \<Rightarrow> 'a nd \<Rightarrow> 'b nd \<Rightarrow> 'c nd result" where
  "broadcast f (Scalar a) (Scalar b) = Inr (Scalar (f a b))"
| "broadcast f (Scalar a) (Array bs) = Inr (Array (map (f a) bs))"
| "broadcast f (Array as) (Scalar b) = Inr (Array (map (\<lambda>a. f a b) as))"
| "broadcast f (Array as) (Array bs) =
     (if length as = length bs then Inr (Array (map2 f as bs))
      else if length as = 1 then Inr (Array (map (f (hd as)) bs))
      else if length bs = 1 then Inr (Array (map (\<lambda>a. f a (hd bs)) as))
      else Inl ValueError)"

definition py_truediv :: "real \<Rightarrow> real \<Rightarrow> real result" where
  \<comment> \<open>\<^verbatim>\<open>a / b\<close> on Python floats\<close>
  "py_truediv a b = (if b = 0 then Inl ZeroDivisionError else Inr (a / b))"

definition float64_divide :: "real \<Rightarrow> real \<Rightarrow> real result" where
  \<comment> \<open>\<^verbatim>\<open>a / b\<close> when an operand is a numpy scalar or 0-d array\<close>
  "float64_divide a b = (if b = 0 then Inl NonFinite else Inr (a / b))"

definition np_true_divide :: "NDFloating \<Rightarrow> NDFloating \<Rightarrow> NDFloating result" where
  "np_true_divide a b =
     and_then (broadcast Pair a b) (\<lambda>ps.
       if nd_all (\<lambda>p. snd p \<noteq> 0) ps then Inr (nd_map (\<lambda>p. fst p / snd p) ps)
       else Inl NonFinite)"

definition np_multiply :: "NDFloating \<Rightarrow> NDFloating \<Rightarrow> NDFloating result" where
  "np_multiply a b = broadcast (\<lambda>x y. x * y) a b"

definition np_subtract :: "NDFloating \<Rightarrow> NDFloating \<Rightarrow> NDFloating result" where
  "np_subtract a b = broadcast (\<lambda>x y. x - y) a b"

definition np_sqrt :: "NDFloating \<Rightarrow> NDFloating result" where
  "np_sqrt a = (if nd_all (\<lambda>v. 0 \<le> v) a then Inr (nd_map sqrt a) else Inl NonFinite)"

definition np_arcsin :: "NDFloating \<Rightarrow> NDFloating result" where
  "np_arcsin a =
     (if nd_all (\<lambda>v. - 1 \<le> v \<and> v \<le> 1) a then Inr (nd_map arcsin a) else Inl NonFinite)"

definition np_arcsinh :: "NDFloating \<Rightarrow> NDFloating" where
  "np_arcsinh a = nd_map arsinh a"

text \<open>
  \<^verbatim>\<open>numpy.vectorize(f)\<close> with no \<^verbatim>\<open>otypes\<close>: the scalar function is applied to every element
  in input order; an input of size zero raises \<^verbatim>\<open>ValueError\<close>, since the output type is
  found by calling \<^verbatim>\<open>f\<close> on the first element.
\<close>

fun vectorize :: "(real \<Rightarrow> real) \<Rightarrow> InputT \<Rightarrow> NDFloating result" where
  "vectorize f (Scalar z) = Inr (Scalar (f z))"
| "vectorize f (Array zs) = (if zs = [] then Inl ValueError else Inr (Array (map f zs)))"

section \<open>The collaborators: solver and constants\<close>

text \<open>
  The solver behind \<^verbatim>\<open>self.cosmo\<close> and the module \<^verbatim>\<open>constants\<close> are not part of the file.
  The solver is taken as a record of its entry points, each a total function returning one
  Python float; the constants table is taken as a record of the two constants the file
  reads. Both are parameters of everything below.
\<close>

record solver =
  cosmo_Om_m :: "real \<Rightarrow> real"
  cosmo_Hubble :: "real \<Rightarrow> real"
  cosmo_angular_distance :: "real \<Rightarrow> real"
  cosmo_luminosity_distance :: "real \<Rightarrow> real"
  cosmo_Omega_Lambda :: real
  cosmo_Omega_m :: real
  cosmo_Omega0_k :: real
  cosmo_Omega_r :: real
  cosmo_Omega_b :: real
  cosmo_Neff :: real
  cosmo_Omega0_cdm :: real
  cosmo_Omega_g :: real
  cosmo_T_cmb :: real

record constants =
  constants_c :: real
  constants_G :: real

definition MPCS_KM_TO_GYR :: real where
  "MPCS_KM_TO_GYR = 978.5"

section \<open>StandardCosmologyWrapper\<close>

record wrapper =
  cosmo :: solver
  cosmo_fn :: "string \<rightharpoonup> (InputT \<Rightarrow> NDFloating result)"

definition post_init :: "wrapper \<Rightarrow> wrapper" where
  "post_init self = self\<lparr>cosmo_fn :=
     Map.empty(''Om_m'' \<mapsto> vectorize (cosmo_Om_m (cosmo self)),
               ''Hubble'' \<mapsto> vectorize (cosmo_Hubble (cosmo self)),
               ''angular_distance'' \<mapsto> vectorize (cosmo_angular_distance (cosmo self)),
               ''luminosity_distance'' \<mapsto> vectorize (cosmo_luminosity_distance (cosmo self)))\<rparr>"

definition StandardCosmologyWrapper :: "solver \<Rightarrow> wrapper" where
  \<comment> \<open>construction: the dataclass stores the solver, then \<^verbatim>\<open>__post_init__\<close> runs\<close>
  "StandardCosmologyWrapper s = post_init \<lparr>cosmo = s, cosmo_fn = Map.empty\<rparr>"

definition cosmo_fn_call :: "wrapper \<Rightarrow> string \<Rightarrow> InputT \<Rightarrow> NDFloating result" where
  \<comment> \<open>\<^verbatim>\<open>self._cosmo_fn[name](z)\<close>\<close>
  "cosmo_fn_call self name z =
     (case cosmo_fn self name of None \<Rightarrow> Inl KeyError | Some f \<Rightarrow> f z)"

subsection \<open>Density parameters\<close>

text \<open>A property read at \<open>z = 0\<close> is a 0-d array; it is modelled by the real it holds.\<close>

definition Omega_tot0 :: "wrapper \<Rightarrow> real" where
  "Omega_tot0 self =
     cosmo_Omega_Lambda (cosmo self) + cosmo_Omega_m (cosmo self)
       + cosmo_Omega0_k (cosmo self) + cosmo_Omega_r (cosmo self)"

definition Omega_tot :: "wrapper \<Rightarrow> InputT \<Rightarrow> NDFloating result" where
  "Omega_tot self z = Inl NotImplementedError"

definition Omega_k0 :: "wrapper \<Rightarrow> real" where
  "Omega_k0 self = cosmo_Omega0_k (cosmo self)"

definition Omega_k :: "wrapper \<Rightarrow> InputT \<Rightarrow> NDFloating result" where
  "Omega_k self z = Inl NotImplementedError"

definition Omega_m0 :: "wrapper \<Rightarrow> real" where
  "Omega_m0 self = cosmo_Omega_m (cosmo self)"

definition Omega_m :: "wrapper \<Rightarrow> InputT \<Rightarrow> NDFloating result" where
  "Omega_m self z = cosmo_fn_call self ''Om_m'' z"

definition Omega_b0 :: "wrapper \<Rightarrow> real" where
  "Omega_b0 self = cosmo_Omega_b (cosmo self)"

definition Omega_b :: "wrapper \<Rightarrow> InputT \<Rightarrow> NDFloating result" where
  "Omega_b self z = Inl NotImplementedError"

definition Omega_nu0 :: "wrapper \<Rightarrow> real result" where
  "Omega_nu0 self = Inl NotImplementedError"

definition Neff :: "wrapper \<Rightarrow> real" where
  "Neff self = cosmo_Neff (cosmo self)"

definition m_nu :: "wrapper \<Rightarrow> real list result" where
  "m_nu self = Inl NotImplementedError"

definition Omega_nu :: "wrapper \<Rightarrow> InputT \<Rightarrow> NDFloating result" where
  "Omega_nu self z = Inl NotImplementedError"

definition Omega_de0 :: "wrapper \<Rightarrow> real" where
  "Omega_de0 self = cosmo_Omega_Lambda (cosmo self)"

definition Omega_de :: "wrapper \<Rightarrow> InputT \<Rightarrow> NDFloating result" where
  "Omega_de self z = Inl NotImplementedError"

definition Omega_dm0 :: "wrapper \<Rightarrow> real" where
  "Omega_dm0 self = cosmo_Omega0_cdm (cosmo self)"

definition Omega_dm :: "wrapper \<Rightarrow> InputT \<Rightarrow> NDFloating result" where
  "Omega_dm self z = Inl NotImplementedError"

definition Omega_gamma0 :: "wrapper \<Rightarrow> real" where
  "Omega_gamma0 self = cosmo_Omega_g (cosmo self)"

definition Omega_gamma :: "wrapper \<Rightarrow> InputT \<Rightarrow> NDFloating result" where
  "Omega_gamma self z = Inl NotImplementedError"

subsection \<open>Hubble parameter and critical density\<close>

definition H0 :: "constants \<Rightarrow> wrapper \<Rightarrow> real" where
  \<comment> \<open>\<^verbatim>\<open>np.array(constants.c * self.cosmo.Hubble(0))\<close>\<close>
  "H0 K self = constants_c K * cosmo_Hubble (cosmo self) 0"

definition hubble_distance :: "wrapper \<Rightarrow> real result" where
  \<comment> \<open>\<^verbatim>\<open>np.array(1 / self.cosmo.Hubble(0))\<close>\<close>
  "hubble_distance self = py_truediv 1 (cosmo_Hubble (cosmo self) 0)"

definition hubble_time :: "constants \<Rightarrow> wrapper \<Rightarrow> real result" where
  \<comment> \<open>\<^verbatim>\<open>np.array(_MPCS_KM_TO_GYR / self.H0)\<close>\<close>
  "hubble_time K self = float64_divide MPCS_KM_TO_GYR (H0 K self)"

definition H :: "constants \<Rightarrow> wrapper \<Rightarrow> InputT \<Rightarrow> NDFloating result" where
  \<comment> \<open>\<^verbatim>\<open>np.array(constants.c * self._cosmo_fn["Hubble"](z))\<close>\<close>
  "H K self z =
     and_then (cosmo_fn_call self ''Hubble'' z) (\<lambda>h.
       Inr (nd_map (\<lambda>v. constants_c K * v) h))"

definition h_over_h0 :: "wrapper \<Rightarrow> InputT \<Rightarrow> NDFloating result" where
  \<comment> \<open>\<^verbatim>\<open>self._cosmo_fn["Hubble"](z) / self.cosmo.Hubble(0)\<close>\<close>
  "h_over_h0 self z =
     and_then (cosmo_fn_call self ''Hubble'' z) (\<lambda>h.
       np_true_divide h (Scalar (cosmo_Hubble (cosmo self) 0)))"

definition critical_density0 :: "constants \<Rightarrow> wrapper \<Rightarrow> real result" where
  \<comment> \<open>\<^verbatim>\<open>np.array(3e6 * self.H0**2 / (8 * np.pi * constants.G))\<close>\<close>
  "critical_density0 K self =
     float64_divide (3000000 * (H0 K self) ^ 2) (8 * pi * constants_G K)"

definition critical_density :: "constants \<Rightarrow> wrapper \<Rightarrow> InputT \<Rightarrow> NDFloating result" where
  \<comment> \<open>\<^verbatim>\<open>np.array(3e6 * self.H(z) ** 2 / (8 * np.pi * constants.G))\<close>\<close>
  "critical_density K self z =
     and_then (H K self z) (\<lambda>h.
       np_true_divide (nd_map (\<lambda>v. 3000000 * v ^ 2) h) (Scalar (8 * pi * constants_G K)))"

subsection \<open>Scale factor and temperature\<close>

definition scale_factor0 :: "wrapper \<Rightarrow> real" where
  "scale_factor0 self = 1"

definition scale_factor :: "wrapper \<Rightarrow> InputT \<Rightarrow> NDFloating result" where
  \<comment> \<open>\<^verbatim>\<open>np.asarray(self.scale_factor0 / (z + 1))\<close>\<close>
  "scale_factor self z = np_true_divide (Scalar (scale_factor0 self)) (nd_map (\<lambda>v. v + 1) z)"

definition Tcmb0 :: "wrapper \<Rightarrow> real" where
  "Tcmb0 self = cosmo_T_cmb (cosmo self)"

definition Tcmb :: "wrapper \<Rightarrow> InputT \<Rightarrow> NDFloating" where
  \<comment> \<open>\<^verbatim>\<open>self.Tcmb0 * (z + 1)\<close>\<close>
  "Tcmb self z = nd_map (\<lambda>v. Tcmb0 self * v) (nd_map (\<lambda>v. v + 1) z)"

subsection \<open>Time\<close>

definition age :: "wrapper \<Rightarrow> InputT \<Rightarrow> NDFloating result" where
  "age self z = Inl NotImplementedError"

definition lookback_time :: "wrapper \<Rightarrow> InputT \<Rightarrow> NDFloating result" where
  "lookback_time self z = Inl NotImplementedError"

subsection \<open>Comoving distance and volume\<close>

definition comoving_distance :: "wrapper \<Rightarrow> InputT \<Rightarrow> NDFloating result" where
  "comoving_distance self z = Inl NotImplementedError"

definition comoving_transverse_distance :: "wrapper \<Rightarrow> InputT \<Rightarrow> NDFloating result" where
  "comoving_transverse_distance self z = Inl NotImplementedError"

text \<open>
  The volume methods reach the two distance primitives through \<^verbatim>\<open>self\<close>. The bodies are
  therefore written over what \<^verbatim>\<open>self.comoving_distance\<close> (\<open>dc\<close>) and
  \<^verbatim>\<open>self.comoving_transverse_distance\<close> (\<open>dm\<close>) resolve to; the class of this revision binds
  them to the two definitions above.
\<close>

definition comoving_volume_flat ::
  "(InputT \<Rightarrow> NDFloating result) \<Rightarrow> InputT \<Rightarrow> NDFloating result" where
  \<comment> \<open>\<^verbatim>\<open>4.0 / 3.0 * np.pi * self.comoving_distance(z) ** 3\<close>\<close>
  "comoving_volume_flat dc z =
     and_then (dc z) (\<lambda>d. Inr (nd_map (\<lambda>v. 4 / 3 * pi * v ^ 3) d))"

definition comoving_volume_positive ::
  "(InputT \<Rightarrow> NDFloating result) \<Rightarrow> wrapper \<Rightarrow> InputT \<Rightarrow> NDFloating result" where
  "comoving_volume_positive dm self z =
     and_then (hubble_distance self) (\<lambda>dh.
     and_then (dm z) (\<lambda>d.
     and_then (np_true_divide d (Scalar dh)) (\<lambda>x.
     and_then (float64_divide (4 * pi * dh ^ 3) (2 * Omega_k0 self)) (\<lambda>term1.
     and_then (np_sqrt (nd_map (\<lambda>v. 1 + Omega_k0 self * v ^ 2) x)) (\<lambda>r.
     and_then (np_multiply x r) (\<lambda>term2.
     let term3 = nd_map (\<lambda>v. sqrt \<bar>Omega_k0 self\<bar> * v) x in
     and_then (float64_divide 1 (sqrt \<bar>Omega_k0 self\<bar>)) (\<lambda>q.
     and_then (np_subtract term2 (nd_map (\<lambda>v. q * v) (np_arcsinh term3))) (\<lambda>t.
       Inr (nd_map (\<lambda>v. term1 * v) t)))))))))"

definition comoving_volume_negative ::
  "(InputT \<Rightarrow> NDFloating result) \<Rightarrow> wrapper \<Rightarrow> InputT \<Rightarrow> NDFloating result" where
  "comoving_volume_negative dm self z =
     and_then (hubble_distance self) (\<lambda>dh.
     and_then (dm z) (\<lambda>d.
     and_then (np_true_divide d (Scalar dh)) (\<lambda>x.
     and_then (float64_divide (4 * pi * dh ^ 3) (2 * Omega_k0 self)) (\<lambda>term1.
     and_then (np_sqrt (nd_map (\<lambda>v. 1 + Omega_k0 self * v ^ 2) x)) (\<lambda>r.
     and_then (np_multiply x r) (\<lambda>term2.
     let term3 = nd_map (\<lambda>v. sqrt \<bar>Omega_k0 self\<bar> * v) x in
     and_then (float64_divide 1 (sqrt \<bar>Omega_k0 self\<bar>)) (\<lambda>q.
     and_then (np_arcsin term3) (\<lambda>a.
     and_then (np_subtract term2 (nd_map (\<lambda>v. q * v) a)) (\<lambda>t.
       Inr (nd_map (\<lambda>v. term1 * v) t))))))))))"

definition comoving_volume_on ::
  "(InputT \<Rightarrow> NDFloating result) \<Rightarrow> (InputT \<Rightarrow> NDFloating result) \<Rightarrow> wrapper \<Rightarrow> InputT
     \<Rightarrow> NDFloating result" where
  "comoving_volume_on dc dm self z =
     (if Omega_k0 self = 0 then comoving_volume_flat dc z
      else if Omega_k0 self > 0 then comoving_volume_positive dm self z
      else comoving_volume_negative dm self z)"

definition differential_comoving_volume_on ::
  "(InputT \<Rightarrow> NDFloating result) \<Rightarrow> wrapper \<Rightarrow> InputT \<Rightarrow> NDFloating result" where
  \<comment> \<open>\<^verbatim>\<open>(self.comoving_transverse_distance(z) / self.hubble_distance) ** 2 / self.h_over_h0(z)\<close>\<close>
  "differential_comoving_volume_on dm self z =
     and_then (dm z) (\<lambda>d.
     and_then (hubble_distance self) (\<lambda>dh.
     and_then (np_true_divide d (Scalar dh)) (\<lambda>x.
     and_then (h_over_h0 self z) (\<lambda>e.
       np_true_divide (nd_map (\<lambda>v. v ^ 2) x) e))))"

definition comoving_volume :: "wrapper \<Rightarrow> InputT \<Rightarrow> NDFloating result" where
  "comoving_volume self z =
     comoving_volume_on (comoving_distance self) (comoving_transverse_distance self) self z"

definition differential_comoving_volume :: "wrapper \<Rightarrow> InputT \<Rightarrow> NDFloating result" where
  "differential_comoving_volume self z =
     differential_comoving_volume_on (comoving_transverse_distance self) self z"

subsection \<open>Angular diameter and luminosity distance\<close>

definition angular_diameter_distance :: "wrapper \<Rightarrow> InputT \<Rightarrow> NDFloating result" where
  "angular_diameter_distance self z = cosmo_fn_call self ''angular_distance'' z"

definition luminosity_distance :: "wrapper \<Rightarrow> InputT \<Rightarrow> NDFloating result" where
  "luminosity_distance self z = cosmo_fn_call self ''luminosity_distance'' z"

section \<open>The closed form of the curved volume, and example values\<close>

text \<open>
  The volume of a curved model as the specification writes it, for one transverse comoving
  distance \<open>dM\<close>, Hubble distance \<open>dh\<close> and curvature \<open>k\<close>:
  \<^verbatim>\<open>[4 pi dh^3 / (2 k)] * [x * sqrt(1 + k x^2) - (1 / sqrt|k|) * S(sqrt|k| * x)]\<close>
  with \<open>x = dM / dh\<close>, where \<open>S\<close> is the inverse hyperbolic sine for \<open>k > 0\<close> and the inverse
  sine for \<open>k < 0\<close>. The branches of the code are compared with it below.
\<close>

definition spec_curved_volume :: "(real \<Rightarrow> real) \<Rightarrow> real \<Rightarrow> real \<Rightarrow> real \<Rightarrow> real" where
  "spec_curved_volume S dh k dM =
     (let x = dM / dh in
      4 * pi * dh ^ 3 / (2 * k) * (x * sqrt (1 + k * x ^ 2) - 1 / sqrt \<bar>k\<bar> * S (sqrt \<bar>k\<bar> * x)))"

text \<open>
  A solver with Hubble rate \<open>h (1 + z)\<close> and curvature \<open>k\<close>, and a constants table, for the
  concrete instances below. Their numbers are illustrative only.
\<close>

definition example_solver :: "real \<Rightarrow> real \<Rightarrow> solver" where
  "example_solver h k =
     \<lparr>cosmo_Om_m = (\<lambda>z. 3 / 10), cosmo_Hubble = (\<lambda>z. h * (1 + z)),
      cosmo_angular_distance = (\<lambda>z. z), cosmo_luminosity_distance = (\<lambda>z. z),
      cosmo_Omega_Lambda = 7 / 10, cosmo_Omega_m = 3 / 10, cosmo_Omega0_k = k,
      cosmo_Omega_r = 0, cosmo_Omega_b = 1 / 20, cosmo_Neff = 3,
      cosmo_Omega0_cdm = 1 / 4, cosmo_Omega_g = 0, cosmo_T_cmb = 2.725\<rparr>"

definition example_constants :: constants where
  "example_constants = \<lparr>constants_c = 299792.458, constants_G = 1 / 232\<rparr>"

section \<open>Basic facts\<close>

lemma and_then_Inl [simp]: "and_then (Inl e) f = Inl e"
  by (simp add: and_then_def)

lemma and_then_Inr [simp]: "and_then (Inr v) f = f v"
  by (simp add: and_then_def)

lemma nd_map_nd_map [simp]: "nd_map f (nd_map g a) = nd_map (\<lambda>v. f (g v)) a"
  by (cases a) simp_all

lemma nd_all_nd_map [simp]: "nd_all P (nd_map g a) = nd_all (\<lambda>v. P (g v)) a"
  by (cases a) (simp_all add: list_all_iff)

lemma nd_all_mono: "nd_all P a \<Longrightarrow> (\<And>v. P v \<Longrightarrow> Q v) \<Longrightarrow> nd_all Q a"
  by (cases a) (auto simp add: list_all_iff)

text \<open>Two operands computed from one array always have one shape.\<close>

lemma broadcast_same:
  "broadcast f (nd_map g a) (nd_map h a) = Inr (nd_map (\<lambda>v. f (g v) (h v)) a)"
  by (cases a) (simp_all add: map2_map_map)

lemma np_true_divide_by_scalar:
  "np_true_divide a (Scalar d) =
     (if d = 0 \<and> a \<noteq> Array [] then Inl NonFinite else Inr (nd_map (\<lambda>v. v / d) a))"
  by (cases a) (auto simp add: np_true_divide_def list_all_iff comp_def)

lemma np_true_divide_scalar_by:
  "np_true_divide (Scalar n) b =
     (if nd_all (\<lambda>v. v \<noteq> 0) b then Inr (nd_map (\<lambda>v. n / v) b) else Inl NonFinite)"
  by (cases b) (auto simp add: np_true_divide_def list_all_iff comp_def)

lemma cosmo_StandardCosmologyWrapper [simp]: "cosmo (StandardCosmologyWrapper s) = s"
  by (simp add: StandardCosmologyWrapper_def post_init_def)

lemma cosmo_fn_Hubble:
  "cosmo_fn_call (StandardCosmologyWrapper s) ''Hubble'' z = vectorize (cosmo_Hubble s) z"
  by (simp add: cosmo_fn_call_def StandardCosmologyWrapper_def post_init_def)

lemma cosmo_example [simp]:
  "cosmo_Hubble (example_solver h k) = (\<lambda>z. h * (1 + z))"
  "cosmo_Omega0_k (example_solver h k) = k"
  "cosmo_T_cmb (example_solver h k) = 2.725"
  by (simp_all add: example_solver_def)

lemma Omega_k0_example [simp]: "Omega_k0 (StandardCosmologyWrapper (example_solver h k)) = k"
  by (simp add: Omega_k0_def)

section \<open>Unsupported operations\<close>

text \<open>
  C3. Every operation the class declares and leaves unimplemented (comoving_distance,
  comoving_transverse_distance, age, lookback_time, the redshift-dependent density
  parameters Omega_tot, Omega_k, Omega_b, Omega_nu, Omega_de, Omega_dm, Omega_gamma, and
  the properties Omega_nu0 and m_nu) ends with NotImplementedError for every model and
  every input; none of them returns a value.
\<close>

theorem unsupported_operations:
  "comoving_distance self z = Inl NotImplementedError
   \<and> comoving_transverse_distance self z = Inl NotImplementedError
   \<and> age self z = Inl NotImplementedError
   \<and> lookback_time self z = Inl NotImplementedError
   \<and> Omega_tot self z = Inl NotImplementedError
   \<and> Omega_k self z = Inl NotImplementedError
   \<and> Omega_b self z = Inl NotImplementedError
   \<and> Omega_nu self z = Inl NotImplementedError
   \<and> Omega_de self z = Inl NotImplementedError
   \<and> Omega_dm self z = Inl NotImplementedError
   \<and> Omega_gamma self z = Inl NotImplementedError
   \<and> Omega_nu0 self = Inl NotImplementedError
   \<and> m_nu self = Inl NotImplementedError"
  by (simp add: comoving_distance_def comoving_transverse_distance_def age_def
      lookback_time_def Omega_tot_def Omega_k_def Omega_b_def Omega_nu_def Omega_de_def
      Omega_dm_def Omega_gamma_def Omega_nu0_def m_nu_def)

section \<open>Hubble parameter\<close>

text \<open>
  What \<open>H\<close> returns on a constructed model: the scalar query goes through the cached
  vectorized closure, and an empty sequence raises \<^verbatim>\<open>ValueError\<close> there.
\<close>

lemma H_StandardCosmologyWrapper:
  "H K (StandardCosmologyWrapper s) z =
     (case z of Scalar v \<Rightarrow> Inr (Scalar (constants_c K * cosmo_Hubble s v))
      | Array vs \<Rightarrow> if vs = [] then Inl ValueError
                    else Inr (Array (map (\<lambda>v. constants_c K * cosmo_Hubble s v) vs)))"
  by (cases z) (simp_all add: H_def cosmo_fn_Hubble)

lemma H_empty: "H K (StandardCosmologyWrapper s) (Array []) = Inl ValueError"
  by (simp add: H_StandardCosmologyWrapper)

text \<open>Every closure in the cache is a vectorized scalar function, and such a closure works
  element by element.\<close>

lemma vectorize_elementwise:
  "\<exists>ys. vectorize f (Array (z0 # zs)) = Inr (Array ys)
     \<and> length ys = length (z0 # zs)
     \<and> (\<forall>i < length (z0 # zs). vectorize f (Scalar ((z0 # zs) ! i)) = Inr (Scalar (ys ! i)))"
proof (intro exI conjI allI impI)
  show "vectorize f (Array (z0 # zs)) = Inr (Array (map f (z0 # zs)))" by simp
  show "length (map f (z0 # zs)) = length (z0 # zs)" by simp
  show "vectorize f (Scalar ((z0 # zs) ! i)) = Inr (Scalar (map f (z0 # zs) ! i))"
    if "i < length (z0 # zs)" for i
    using that by (simp only: vectorize.simps nth_map)
qed

lemma cosmo_fn_cases:
  assumes "cosmo_fn (StandardCosmologyWrapper s) name = Some q"
  shows "\<exists>f. q = vectorize f"
  using assms
  by (auto simp add: StandardCosmologyWrapper_def post_init_def split: if_splits)

lemma hubble_distance_cases:
  "hubble_distance self =
     (if cosmo_Hubble (cosmo self) 0 = 0 then Inl ZeroDivisionError
      else Inr (1 / cosmo_Hubble (cosmo self) 0))"
  by (simp add: hubble_distance_def py_truediv_def)

lemma hubble_distance_nonzero: "hubble_distance self = Inr dh \<Longrightarrow> dh \<noteq> 0"
  by (auto simp add: hubble_distance_cases split: if_splits)

lemma hubble_distance_example:
  "hubble_distance (StandardCosmologyWrapper (example_solver 2 k)) = Inr (1 / 2)"
  by (simp add: hubble_distance_cases)

text \<open>
  C4. For every model, the Hubble function at redshift zero is the Hubble constant:
  H(0) returns the value of the property H0.
\<close>

theorem H_at_zero:
  "H K (StandardCosmologyWrapper s) (Scalar 0) = Inr (Scalar (H0 K (StandardCosmologyWrapper s)))"
  by (simp add: H_def H0_def cosmo_fn_Hubble)

text \<open>
  C5, as the code has it. For every model and every non-empty redshift sequence
  \<open>[z0, ..., zn]\<close>, the vectorized query \<open>H\<close> returns a sequence of the same length whose
  element \<open>i\<close> is \<open>H\<close> of the single redshift \<open>zi\<close>, in input order; element \<open>i\<close> of the
  output is fixed by element \<open>i\<close> of the input alone, whatever sequence it stands in. The
  same holds of every closure that \<^verbatim>\<open>__post_init__\<close> stores in the cache. On the empty
  sequence \<open>H\<close> returns no sequence: it raises ValueError.
\<close>

theorem H_elementwise:
  "(\<exists>ys. H K (StandardCosmologyWrapper s) (Array (z0 # zs)) = Inr (Array ys)
     \<and> length ys = length (z0 # zs)
     \<and> (\<forall>i < length (z0 # zs).
          H K (StandardCosmologyWrapper s) (Scalar ((z0 # zs) ! i)) = Inr (Scalar (ys ! i)))
     \<and> (\<forall>zs' ys' i j. H K (StandardCosmologyWrapper s) (Array zs') = Inr (Array ys')
          \<and> i < length (z0 # zs) \<and> j < length zs' \<and> zs' ! j = (z0 # zs) ! i
          \<longrightarrow> ys' ! j = ys ! i))
   \<and> (\<forall>name q. cosmo_fn (StandardCosmologyWrapper s) name = Some q \<longrightarrow>
        (\<exists>ys. q (Array (z0 # zs)) = Inr (Array ys)
           \<and> length ys = length (z0 # zs)
           \<and> (\<forall>i < length (z0 # zs). q (Scalar ((z0 # zs) ! i)) = Inr (Scalar (ys ! i)))))
   \<and> H K (StandardCosmologyWrapper s) (Array []) = Inl ValueError"
proof (intro conjI allI impI)
  let ?f = "\<lambda>v. constants_c K * cosmo_Hubble s v"
  show "\<exists>ys. H K (StandardCosmologyWrapper s) (Array (z0 # zs)) = Inr (Array ys)
     \<and> length ys = length (z0 # zs)
     \<and> (\<forall>i < length (z0 # zs).
          H K (StandardCosmologyWrapper s) (Scalar ((z0 # zs) ! i)) = Inr (Scalar (ys ! i)))
     \<and> (\<forall>zs' ys' i j. H K (StandardCosmologyWrapper s) (Array zs') = Inr (Array ys')
          \<and> i < length (z0 # zs) \<and> j < length zs' \<and> zs' ! j = (z0 # zs) ! i
          \<longrightarrow> ys' ! j = ys ! i)"
  proof (intro exI conjI allI impI)
    show "H K (StandardCosmologyWrapper s) (Array (z0 # zs)) = Inr (Array (map ?f (z0 # zs)))"
      by (simp add: H_StandardCosmologyWrapper)
    show "length (map ?f (z0 # zs)) = length (z0 # zs)"
      by simp
    show "H K (StandardCosmologyWrapper s) (Scalar ((z0 # zs) ! i))
        = Inr (Scalar (map ?f (z0 # zs) ! i))" if "i < length (z0 # zs)" for i
      using that by (simp only: H_StandardCosmologyWrapper nd.case nth_map)
    show "ys' ! j = map ?f (z0 # zs) ! i"
      if a: "H K (StandardCosmologyWrapper s) (Array zs') = Inr (Array ys')
            \<and> i < length (z0 # zs) \<and> j < length zs' \<and> zs' ! j = (z0 # zs) ! i"
      for zs' ys' i j
    proof -
      from a have "ys' = map ?f zs'"
        by (auto simp add: H_StandardCosmologyWrapper split: if_splits)
      with a show ?thesis by (simp only: nth_map)
    qed
  qed
next
  fix name q
  assume "cosmo_fn (StandardCosmologyWrapper s) name = Some q"
  then obtain f where "q = vectorize f"
    using cosmo_fn_cases by blast
  then show "\<exists>ys. q (Array (z0 # zs)) = Inr (Array ys)
           \<and> length ys = length (z0 # zs)
           \<and> (\<forall>i < length (z0 # zs). q (Scalar ((z0 # zs) ! i)) = Inr (Scalar (ys ! i)))"
    using vectorize_elementwise [of f z0 zs] by simp
next
  show "H K (StandardCosmologyWrapper s) (Array []) = Inl ValueError"
    by (rule H_empty)
qed

theorem H_elementwise_witness:
  "H example_constants (StandardCosmologyWrapper (example_solver 2 0)) (Array [0, 1])
     = Inr (Array [599584.916, 1199169.832])
   \<and> H example_constants (StandardCosmologyWrapper (example_solver 2 0)) (Scalar 1)
     = Inr (Scalar 1199169.832)
   \<and> (\<exists>ys. Omega_m (StandardCosmologyWrapper (example_solver 2 0)) (Array [0, 1])
          = Inr (Array ys) \<and> length ys = 2)"
proof -
  note t = H_elementwise [of example_constants "example_solver 2 0" 0 "[1]"]
  from t obtain ys where
    a: "H example_constants (StandardCosmologyWrapper (example_solver 2 0)) (Array (0 # [1]))
          = Inr (Array ys)"
    and e: "\<forall>i < length (0 # [1::real]).
          H example_constants (StandardCosmologyWrapper (example_solver 2 0))
            (Scalar ((0 # [1]) ! i)) = Inr (Scalar (ys ! i))"
    by blast
  from e [rule_format, of 1]
  have b: "H example_constants (StandardCosmologyWrapper (example_solver 2 0))
      (Scalar ((0 # [1]) ! 1)) = Inr (Scalar (ys ! 1))"
    by simp
  have c: "cosmo_fn (StandardCosmologyWrapper (example_solver 2 0)) ''Om_m''
      = Some (vectorize (cosmo_Om_m (example_solver 2 0)))"
    by (simp add: StandardCosmologyWrapper_def post_init_def)
  with t obtain ws where
    "vectorize (cosmo_Om_m (example_solver 2 0)) (Array (0 # [1])) = Inr (Array ws)"
    and "length ws = length (0 # [1::real])"
    by blast
  with c have "\<exists>ys. Omega_m (StandardCosmologyWrapper (example_solver 2 0)) (Array [0, 1])
      = Inr (Array ys) \<and> length ys = 2"
    by (simp add: Omega_m_def cosmo_fn_call_def)
  with a b show ?thesis
    by (simp add: H_StandardCosmologyWrapper example_constants_def)
qed

text \<open>
  The empty sequence, on the model with Hubble rate \<open>2 (1 + z)\<close>: the claim asks for an
  output of the input's length, the empty sequence; \<open>H\<close> raises ValueError instead.
\<close>

theorem H_empty_sequence_ValueError:
  "H example_constants (StandardCosmologyWrapper (example_solver 2 0)) (Array [])
     = Inl ValueError
   \<and> H example_constants (StandardCosmologyWrapper (example_solver 2 0)) (Array [])
     \<noteq> Inr (Array [])"
  by (simp add: H_StandardCosmologyWrapper)

text \<open>
  C6. For every model, hubble_distance is 1 divided by the solver's Hubble rate at
  \<open>z = 0\<close>, with no speed-of-light factor (the division is Python's, so a rate of zero
  raises ZeroDivisionError), while H0 is the speed of light times that same rate. Hence
  the two are not reciprocals: whenever hubble_distance has a value, its product with H0
  is the speed-of-light constant, which is 1 only if that constant is.
\<close>

theorem hubble_distance_and_H0:
  "hubble_distance self
      = (if cosmo_Hubble (cosmo self) 0 = 0 then Inl ZeroDivisionError
         else Inr (1 / cosmo_Hubble (cosmo self) 0))
   \<and> H0 K self = constants_c K * cosmo_Hubble (cosmo self) 0
   \<and> (\<forall>d. hubble_distance self = Inr d \<longrightarrow>
         d * H0 K self = constants_c K \<and> (constants_c K \<noteq> 1 \<longrightarrow> d * H0 K self \<noteq> 1))"
  by (auto simp add: hubble_distance_cases H0_def split: if_splits)

theorem hubble_distance_and_H0_witness:
  "hubble_distance (StandardCosmologyWrapper (example_solver 2 0)) = Inr (1 / 2)
   \<and> H0 example_constants (StandardCosmologyWrapper (example_solver 2 0)) = 599584.916
   \<and> 1 / 2 * H0 example_constants (StandardCosmologyWrapper (example_solver 2 0)) = 299792.458
   \<and> 1 / 2 * H0 example_constants (StandardCosmologyWrapper (example_solver 2 0)) \<noteq> 1"
  using hubble_distance_and_H0 [of "StandardCosmologyWrapper (example_solver 2 0)"
      example_constants]
  by (simp add: example_constants_def)

section \<open>Critical density\<close>

text \<open>
  C9. For every model, critical_density0 is \<^verbatim>\<open>3e6 * H0**2 / (8 * pi * G)\<close>, whatever H0
  and the gravitational constant G are, and critical_density(z) is the same formula with
  H(z) in the place of H0, element by element. The division is numpy's: the quotient is the
  real number of the formula when G is not zero, and a non-finite value when G is zero.
\<close>

theorem critical_density_formula:
  "critical_density0 K self
     = float64_divide (3000000 * (H0 K self) ^ 2) (8 * pi * constants_G K)
   \<and> critical_density K self z
     = (case H K self z of Inl e \<Rightarrow> Inl e
        | Inr h \<Rightarrow> np_true_divide (nd_map (\<lambda>v. 3000000 * v ^ 2) h)
                    (Scalar (8 * pi * constants_G K)))
   \<and> (constants_G K \<noteq> 0 \<longrightarrow>
      critical_density0 K self = Inr (3000000 * (H0 K self) ^ 2 / (8 * pi * constants_G K))
      \<and> critical_density K self z
          = (case H K self z of Inl e \<Rightarrow> Inl e
             | Inr h \<Rightarrow> Inr (nd_map (\<lambda>v. 3000000 * v ^ 2 / (8 * pi * constants_G K)) h)))
   \<and> (constants_G K = 0 \<longrightarrow> critical_density0 K self = Inl NonFinite)"
  by (simp add: critical_density0_def critical_density_def float64_divide_def
      np_true_divide_by_scalar and_then_def split: sum.split)

theorem critical_density_formula_witness:
  "critical_density0 example_constants (StandardCosmologyWrapper (example_solver 2 0))
     = Inr (3000000 * 599584.916 ^ 2 / (8 * pi * (1 / 232)))
   \<and> critical_density example_constants (StandardCosmologyWrapper (example_solver 2 0)) (Scalar 1)
     = Inr (Scalar (3000000 * 1199169.832 ^ 2 / (8 * pi * (1 / 232))))
   \<and> critical_density0 \<lparr>constants_c = 1, constants_G = 0\<rparr>
       (StandardCosmologyWrapper (example_solver 2 0)) = Inl NonFinite"
  using critical_density_formula [of example_constants
      "StandardCosmologyWrapper (example_solver 2 0)" "Scalar 1"]
    critical_density_formula [of "\<lparr>constants_c = 1, constants_G = 0\<rparr>"
      "StandardCosmologyWrapper (example_solver 2 0)" "Scalar 1"]
  by (simp add: example_constants_def H_StandardCosmologyWrapper H0_def float64_divide_def
      np_true_divide_by_scalar)

section \<open>Scale factor and temperature\<close>

text \<open>
  C7. For every model and every redshift \<open>z \<ge> 0\<close> (a single one, or a sequence of them),
  scale_factor(z) is \<open>1 / (1 + z)\<close>; at \<open>z = 0\<close> it is exactly 1, and so is the property
  scale_factor0.
\<close>

theorem scale_factor_formula:
  "(nd_all (\<lambda>v. 0 \<le> v) z \<longrightarrow> scale_factor self z = Inr (nd_map (\<lambda>v. 1 / (1 + v)) z))
   \<and> scale_factor self (Scalar 0) = Inr (Scalar 1)
   \<and> scale_factor0 self = 1"
proof (intro conjI impI)
  assume "nd_all (\<lambda>v. 0 \<le> v) z"
  then have "nd_all (\<lambda>v. v + 1 \<noteq> 0) z"
    by (rule nd_all_mono) simp
  then show "scale_factor self z = Inr (nd_map (\<lambda>v. 1 / (1 + v)) z)"
    by (simp add: scale_factor_def scale_factor0_def np_true_divide_scalar_by add.commute)
next
  show "scale_factor self (Scalar 0) = Inr (Scalar 1)"
    by (simp add: scale_factor_def scale_factor0_def np_true_divide_scalar_by)
next
  show "scale_factor0 self = 1"
    by (simp add: scale_factor0_def)
qed

theorem scale_factor_formula_witness:
  "scale_factor (StandardCosmologyWrapper (example_solver 2 0)) (Array [0, 1, 3])
     = Inr (Array [1, 1 / 2, 1 / 4])"
  using scale_factor_formula [of "Array [0, 1, 3]" "StandardCosmologyWrapper (example_solver 2 0)"]
  by simp

text \<open>
  C8. For every model and every redshift, Tcmb(z) is \<open>Tcmb0 * (1 + z)\<close>, where Tcmb0 is
  what the solver's T_cmb returns; with Tcmb0 = 2.725, Tcmb(1) is 5.45.
\<close>

theorem Tcmb_formula:
  "Tcmb self z = nd_map (\<lambda>v. Tcmb0 self * (1 + v)) z
   \<and> Tcmb0 self = cosmo_T_cmb (cosmo self)
   \<and> (Tcmb0 self = 2.725 \<longrightarrow> Tcmb self (Scalar 1) = Scalar 5.45)"
  by (simp add: Tcmb_def Tcmb0_def add.commute)

theorem Tcmb_formula_witness:
  "Tcmb0 (StandardCosmologyWrapper (example_solver 2 0)) = 2.725
   \<and> Tcmb (StandardCosmologyWrapper (example_solver 2 0)) (Scalar 1) = Scalar 5.45"
  using Tcmb_formula [of "StandardCosmologyWrapper (example_solver 2 0)" "Scalar 1"]
  by simp

section \<open>Comoving volume\<close>

text \<open>
  The positive branch returns the closed form whenever the Hubble distance and the
  transverse distance have values: the square root is of a number at least 1.
\<close>

lemma positive_closed_form:
  assumes k: "0 < Omega_k0 self" and dh: "hubble_distance self = Inr dh" and d: "dm z = Inr d"
  shows "comoving_volume_positive dm self z
           = Inr (nd_map (spec_curved_volume arsinh dh (Omega_k0 self)) d)"
proof -
  have dh0: "dh \<noteq> 0" using dh by (rule hubble_distance_nonzero)
  have nonneg: "nd_all (\<lambda>v. 0 \<le> 1 + Omega_k0 self * (v / dh)\<^sup>2) d"
    using k by (cases d) (simp_all add: list_all_iff add_nonneg_nonneg)
  have s0: "sqrt \<bar>Omega_k0 self\<bar> \<noteq> 0" using k by simp
  show ?thesis
    using k dh0 s0 nonneg
    by (simp add: comoving_volume_positive_def dh d np_true_divide_by_scalar
        float64_divide_def np_sqrt_def np_multiply_def np_subtract_def
        np_arcsinh_def broadcast_same spec_curved_volume_def [abs_def] Let_def)
qed

text \<open>
  The negative branch returns it where \<open>|k| * x^2 \<le> 1\<close>: there the square root has a
  non-negative argument and the arcsine an argument within \<open>[-1, 1]\<close>.
\<close>

lemma negative_closed_form:
  assumes k: "Omega_k0 self < 0" and dh: "hubble_distance self = Inr dh" and d: "dm z = Inr d"
    and dom: "nd_all (\<lambda>v. \<bar>Omega_k0 self\<bar> * (v / dh)\<^sup>2 \<le> 1) d"
  shows "comoving_volume_negative dm self z
           = Inr (nd_map (spec_curved_volume arcsin dh (Omega_k0 self)) d)"
proof -
  have dh0: "dh \<noteq> 0" using dh by (rule hubble_distance_nonzero)
  have nonneg: "nd_all (\<lambda>v. 0 \<le> 1 + Omega_k0 self * (v / dh)\<^sup>2) d"
    using dom
  proof (rule nd_all_mono)
    fix v :: real
    assume "\<bar>Omega_k0 self\<bar> * (v / dh)\<^sup>2 \<le> 1"
    with k show "0 \<le> 1 + Omega_k0 self * (v / dh)\<^sup>2" by simp
  qed
  have asin: "nd_all (\<lambda>v. - 1 \<le> sqrt \<bar>Omega_k0 self\<bar> * (v / dh)
      \<and> sqrt \<bar>Omega_k0 self\<bar> * (v / dh) \<le> 1) d"
    using dom
  proof (rule nd_all_mono)
    fix v :: real
    assume le: "\<bar>Omega_k0 self\<bar> * (v / dh)\<^sup>2 \<le> 1"
    have "(sqrt \<bar>Omega_k0 self\<bar> * w)\<^sup>2 = \<bar>Omega_k0 self\<bar> * w\<^sup>2" for w
      by (simp add: power_mult_distrib)
    from this [of "v / dh"] le have "(sqrt \<bar>Omega_k0 self\<bar> * (v / dh))\<^sup>2 \<le> 1"
      by simp
    then have "\<bar>sqrt \<bar>Omega_k0 self\<bar> * (v / dh)\<bar> \<le> 1"
      by (simp only: abs_square_le_1)
    then show "- 1 \<le> sqrt \<bar>Omega_k0 self\<bar> * (v / dh)
        \<and> sqrt \<bar>Omega_k0 self\<bar> * (v / dh) \<le> 1"
      by (intro conjI; linarith)
  qed
  have s0: "sqrt \<bar>Omega_k0 self\<bar> \<noteq> 0" using k by simp
  show ?thesis
    using k dh0 s0 nonneg asin
    by (simp add: comoving_volume_negative_def dh d np_true_divide_by_scalar
        float64_divide_def np_sqrt_def np_multiply_def np_subtract_def
        np_arcsin_def broadcast_same spec_curved_volume_def [abs_def] Let_def)
qed

text \<open>Run at zero curvature, either curved branch would divide by \<open>2 * Omega_k0 = 0\<close>.\<close>

lemma curved_at_zero:
  assumes k: "Omega_k0 self = 0" and dh: "hubble_distance self = Inr dh" and d: "dm z = Inr d"
  shows "comoving_volume_positive dm self z = Inl NonFinite"
    and "comoving_volume_negative dm self z = Inl NonFinite"
  using hubble_distance_nonzero [OF dh]
  by (simp_all add: comoving_volume_positive_def comoving_volume_negative_def dh d k
      np_true_divide_by_scalar float64_divide_def)

text \<open>
  C1. comoving_volume(z) takes exactly one of three branches by the sign of Omega_k0: the
  flat one when it is zero, tested first, the positive one when it is above zero, the
  negative one otherwise. At zero curvature the flat branch gives the sphere's volume and
  the division by \<open>2 * Omega_k0\<close>, which either curved branch would meet there, is not
  reached. In both curved branches the square roots of the curvature are of \<open>|Omega_k0|\<close>;
  the positive branch uses the inverse hyperbolic sine and the negative branch the inverse
  sine. The distance primitives \<open>dc\<close> and \<open>dm\<close> are arbitrary.
\<close>

theorem comoving_volume_branches:
  "(Omega_k0 self = 0 \<longrightarrow> comoving_volume_on dc dm self z = comoving_volume_flat dc z)
   \<and> (0 < Omega_k0 self \<longrightarrow> comoving_volume_on dc dm self z = comoving_volume_positive dm self z)
   \<and> (Omega_k0 self < 0 \<longrightarrow> comoving_volume_on dc dm self z = comoving_volume_negative dm self z)
   \<and> (Omega_k0 self = 0 \<and> dc z = Inr d \<longrightarrow>
        comoving_volume_on dc dm self z = Inr (nd_map (\<lambda>v. 4 / 3 * pi * v ^ 3) d))
   \<and> (Omega_k0 self = 0 \<and> hubble_distance self = Inr dh \<and> dm z = Inr d' \<longrightarrow>
        comoving_volume_positive dm self z = Inl NonFinite
        \<and> comoving_volume_negative dm self z = Inl NonFinite)
   \<and> (0 < Omega_k0 self \<and> hubble_distance self = Inr dh \<and> dm z = Inr d' \<longrightarrow>
        comoving_volume_on dc dm self z
          = Inr (nd_map (spec_curved_volume arsinh dh (Omega_k0 self)) d'))
   \<and> (Omega_k0 self < 0 \<and> hubble_distance self = Inr dh \<and> dm z = Inr d'
        \<and> nd_all (\<lambda>v. \<bar>Omega_k0 self\<bar> * (v / dh)\<^sup>2 \<le> 1) d' \<longrightarrow>
        comoving_volume_on dc dm self z
          = Inr (nd_map (spec_curved_volume arcsin dh (Omega_k0 self)) d'))"
proof (intro conjI impI)
  assume "Omega_k0 self = 0"
  then show "comoving_volume_on dc dm self z = comoving_volume_flat dc z"
    by (simp add: comoving_volume_on_def)
next
  assume "0 < Omega_k0 self"
  then show "comoving_volume_on dc dm self z = comoving_volume_positive dm self z"
    by (simp add: comoving_volume_on_def)
next
  assume "Omega_k0 self < 0"
  then show "comoving_volume_on dc dm self z = comoving_volume_negative dm self z"
    by (simp add: comoving_volume_on_def)
next
  assume "Omega_k0 self = 0 \<and> dc z = Inr d"
  then show "comoving_volume_on dc dm self z = Inr (nd_map (\<lambda>v. 4 / 3 * pi * v ^ 3) d)"
    by (simp add: comoving_volume_on_def comoving_volume_flat_def)
next
  assume a: "Omega_k0 self = 0 \<and> hubble_distance self = Inr dh \<and> dm z = Inr d'"
  then show "comoving_volume_positive dm self z = Inl NonFinite"
    by (simp add: curved_at_zero(1))
  from a show "comoving_volume_negative dm self z = Inl NonFinite"
    by (simp add: curved_at_zero(2))
next
  assume "0 < Omega_k0 self \<and> hubble_distance self = Inr dh \<and> dm z = Inr d'"
  then show "comoving_volume_on dc dm self z
      = Inr (nd_map (spec_curved_volume arsinh dh (Omega_k0 self)) d')"
    by (simp add: comoving_volume_on_def positive_closed_form)
next
  assume a: "Omega_k0 self < 0 \<and> hubble_distance self = Inr dh \<and> dm z = Inr d'
        \<and> nd_all (\<lambda>v. \<bar>Omega_k0 self\<bar> * (v / dh)\<^sup>2 \<le> 1) d'"
  then have k: "Omega_k0 self < 0" and dh: "hubble_distance self = Inr dh"
    and d: "dm z = Inr d'"
    and dom: "nd_all (\<lambda>v. \<bar>Omega_k0 self\<bar> * (v / dh)\<^sup>2 \<le> 1) d'"
    by blast+
  from k show "comoving_volume_on dc dm self z
      = Inr (nd_map (spec_curved_volume arcsin dh (Omega_k0 self)) d')"
    by (simp add: comoving_volume_on_def
        negative_closed_form [where dm = dm and z = z, OF k dh d dom])
qed

theorem comoving_volume_branches_witness:
  "comoving_volume_on (\<lambda>z. Inr z) (\<lambda>z. Inr z) (StandardCosmologyWrapper (example_solver 2 0)) (Scalar 3)
     = Inr (Scalar (36 * pi))
   \<and> comoving_volume_positive (\<lambda>z. Inr z) (StandardCosmologyWrapper (example_solver 2 0)) (Scalar 3)
     = Inl NonFinite
   \<and> comoving_volume_negative (\<lambda>z. Inr z) (StandardCosmologyWrapper (example_solver 2 0)) (Scalar 3)
     = Inl NonFinite
   \<and> comoving_volume_on (\<lambda>z. Inr z) (\<lambda>z. Inr z) (StandardCosmologyWrapper (example_solver 2 1)) (Scalar 3)
     = Inr (Scalar (spec_curved_volume arsinh (1 / 2) 1 3))
   \<and> comoving_volume_on (\<lambda>z. Inr z) (\<lambda>z. Inr z) (StandardCosmologyWrapper (example_solver 2 (- 1))) (Scalar (1 / 4))
     = Inr (Scalar (spec_curved_volume arcsin (1 / 2) (- 1) (1 / 4)))"
  using comoving_volume_branches [of "StandardCosmologyWrapper (example_solver 2 0)"
      "\<lambda>z. Inr z" "\<lambda>z. Inr z" "Scalar 3" "Scalar 3" "1 / 2" "Scalar 3"]
    comoving_volume_branches [of "StandardCosmologyWrapper (example_solver 2 1)"
      "\<lambda>z. Inr z" "\<lambda>z. Inr z" "Scalar 3" "Scalar 3" "1 / 2" "Scalar 3"]
    comoving_volume_branches [of "StandardCosmologyWrapper (example_solver 2 (- 1))"
      "\<lambda>z. Inr z" "\<lambda>z. Inr z" "Scalar (1 / 4)" "Scalar (1 / 4)" "1 / 2" "Scalar (1 / 4)"]
  by (auto simp add: hubble_distance_example comoving_volume_flat_def power2_eq_square)

text \<open>
  C2. For every model with Omega_k0 = 0 and every redshift, comoving_volume(z) is
  \<^verbatim>\<open>4/3 * pi\<close> times the cube of comoving_distance(z), element by element: whatever
  comoving_distance resolves to, and so for the class as it stands, where both sides end
  with the error comoving_distance raises.
\<close>

theorem flat_comoving_volume:
  "Omega_k0 self = 0 \<Longrightarrow>
     comoving_volume_on dc dm self z
       = (case dc z of Inl e \<Rightarrow> Inl e | Inr d \<Rightarrow> Inr (nd_map (\<lambda>v. 4 / 3 * pi * v ^ 3) d))
     \<and> comoving_volume self z
       = (case comoving_distance self z of Inl e \<Rightarrow> Inl e
          | Inr d \<Rightarrow> Inr (nd_map (\<lambda>v. 4 / 3 * pi * v ^ 3) d))"
  by (simp add: comoving_volume_def comoving_volume_on_def comoving_volume_flat_def and_then_def
      split: sum.split)

theorem flat_comoving_volume_witness:
  "comoving_volume_on (\<lambda>z. Inr z) (\<lambda>z. Inr z)
       (StandardCosmologyWrapper (example_solver 2 0)) (Array [1, 3])
     = Inr (Array [4 / 3 * pi, 36 * pi])
   \<and> comoving_volume (StandardCosmologyWrapper (example_solver 2 0)) (Array [1, 3])
     = Inl NotImplementedError"
  using flat_comoving_volume [of "StandardCosmologyWrapper (example_solver 2 0)"
      "\<lambda>z. Inr z" "\<lambda>z. Inr z" "Array [1, 3]"]
  by (simp add: comoving_distance_def)

text \<open>
  C10, as the code has it. In this revision neither volume method returns a value.
  differential_comoving_volume(z) raises NotImplementedError for every model and input:
  it calls comoving_transverse_distance first. comoving_volume(z) raises
  NotImplementedError in the flat branch, and in the curved branches whenever the solver's
  Hubble rate at \<open>z = 0\<close> is not zero; a curved model whose rate is zero raises
  ZeroDivisionError instead, since both curved branches read hubble_distance before they
  call comoving_transverse_distance.
\<close>

theorem volumes_raise:
  "differential_comoving_volume self z = Inl NotImplementedError
   \<and> comoving_volume self z
       = (if Omega_k0 self \<noteq> 0 \<and> cosmo_Hubble (cosmo self) 0 = 0 then Inl ZeroDivisionError
          else Inl NotImplementedError)"
  by (simp add: differential_comoving_volume_def differential_comoving_volume_on_def
      comoving_volume_def comoving_volume_on_def comoving_volume_flat_def
      comoving_volume_positive_def comoving_volume_negative_def
      comoving_distance_def comoving_transverse_distance_def hubble_distance_cases)

text \<open>
  The model with Hubble rate zero and curvature 1 at redshift 1: comoving_volume raises
  ZeroDivisionError, not NotImplementedError.
\<close>

theorem comoving_volume_ZeroDivisionError:
  "comoving_volume (StandardCosmologyWrapper (example_solver 0 1)) (Scalar 1)
     = Inl ZeroDivisionError
   \<and> comoving_volume (StandardCosmologyWrapper (example_solver 0 1)) (Scalar 1)
     \<noteq> Inl NotImplementedError"
  by (simp add: comoving_volume_def comoving_volume_on_def comoving_volume_positive_def
      hubble_distance_cases)

end
